theory Spec2Isabelle
  imports Complex_Main
begin

section \<open>Python values\<close>

text \<open>
  The bridge of \<^verbatim>\<open>sts_agent.py\<close> handles values produced by \<^verbatim>\<open>json.loads\<close> and builds
  the dictionaries it hands to \<^verbatim>\<open>json.dumps\<close>. Both are modelled by one datatype.

  A Python float is an IEEE double. Every finite double is a rational number, and the
  code below only compares floats (it never adds or multiplies two of them in a place a
  property depends on), so a finite float is modelled by the rational it equals; the two
  infinities and NaN, which \<^verbatim>\<open>json.loads\<close> accepts, are kept apart.
\<close>

datatype pyfloat = Fin rat | PInf | NInf | NaN

text \<open>
  \<^verbatim>\<open>JNull\<close> is Python's \<^verbatim>\<open>None\<close>. An object is the list of the items of the parsed
  dictionary; a key is looked up with \<open>map_of\<close>. Strings are byte strings (UTF-8).
\<close>

datatype json =
    JNull
  | JBool bool
  | JInt int
  | JFloat pyfloat
  | JStr string
  | JArr "json list"
  | JObj "(string \<times> json) list"

text \<open>
  Exceptions are values: the class and the text \<^verbatim>\<open>str(e)\<close>. Every class here derives from
  \<^verbatim>\<open>Exception\<close>, so an \<^verbatim>\<open>except Exception\<close> clause catches each of them. The
  cancellation of a task (\<^verbatim>\<open>asyncio.CancelledError\<close>, which derives from
  \<^verbatim>\<open>BaseException\<close> only) is not part of the model.
\<close>

datatype exn_class =
    TimeoutError
  | TypeError
  | ValueError
  | AttributeError
  | JSONDecodeError
  | UnicodeDecodeError
  | ConnectionClosed
  | OtherException string

datatype exn = Exn (exn_cls: exn_class) (exn_str: string)

text \<open>Truth value of a Python object, as \<^verbatim>\<open>if x:\<close> tests it.\<close>

fun truthy :: "json \<Rightarrow> bool" where
  "truthy JNull = False"
| "truthy (JBool b) = b"
| "truthy (JInt i) = (i \<noteq> 0)"
| "truthy (JFloat f) = (f \<noteq> Fin 0)"
| "truthy (JStr s) = (s \<noteq> [])"
| "truthy (JArr xs) = (xs \<noteq> [])"
| "truthy (JObj kvs) = (kvs \<noteq> [])"

text \<open>
  \<^verbatim>\<open>d.get(key, default)\<close>: only a dictionary has the method; on any other value the
  attribute lookup raises \<^verbatim>\<open>AttributeError\<close>.
\<close>

fun dict_get :: "json \<Rightarrow> string \<Rightarrow> json \<Rightarrow> exn + json" where
  "dict_get (JObj kvs) k d = Inr (case map_of kvs k of None \<Rightarrow> d | Some v \<Rightarrow> v)"
| "dict_get _ k d = Inl (Exn AttributeError ''get'')"

subsection \<open>Comparison of numbers, \<^verbatim>\<open>min\<close> and \<^verbatim>\<open>max\<close>\<close>

fun flt_less :: "pyfloat \<Rightarrow> pyfloat \<Rightarrow> bool" where
  "flt_less NaN _ = False"
| "flt_less _ NaN = False"
| "flt_less (Fin a) (Fin b) = (a < b)"
| "flt_less (Fin a) PInf = True"
| "flt_less (Fin a) NInf = False"
| "flt_less PInf _ = False"
| "flt_less NInf (Fin b) = True"
| "flt_less NInf PInf = True"
| "flt_less NInf NInf = False"

text \<open>
  The numeric value of an operand of \<^verbatim>\<open><\<close>: \<^verbatim>\<open>bool\<close> is a subclass of \<^verbatim>\<open>int\<close>, and an
  \<^verbatim>\<open>int\<close> is compared with a float exactly.
\<close>

fun num_of :: "json \<Rightarrow> pyfloat option" where
  "num_of (JBool b) = Some (Fin (if b then 1 else 0))"
| "num_of (JInt i) = Some (Fin (of_int i))"
| "num_of (JFloat f) = Some f"
| "num_of _ = None"

text \<open>
  \<^verbatim>\<open>a < b\<close> where one operand is a float, as in every use below: a number on the other
  side is compared, anything else raises \<^verbatim>\<open>TypeError\<close>.
\<close>

definition py_less :: "json \<Rightarrow> json \<Rightarrow> exn + bool" where
  "py_less a b =
     (case (num_of a, num_of b) of
        (Some x, Some y) \<Rightarrow> Inr (flt_less x y)
      | _ \<Rightarrow> Inl (Exn TypeError ''not supported between instances''))"

text \<open>
  \<^verbatim>\<open>min(a, b)\<close> keeps \<open>a\<close> unless \<^verbatim>\<open>b < a\<close>; \<^verbatim>\<open>max(a, b)\<close> keeps \<open>a\<close> unless \<^verbatim>\<open>b > a\<close>.
\<close>

definition py_min :: "json \<Rightarrow> json \<Rightarrow> exn + json" where
  "py_min a b = (case py_less b a of Inl e \<Rightarrow> Inl e | Inr c \<Rightarrow> Inr (if c then b else a))"

definition py_max :: "json \<Rightarrow> json \<Rightarrow> exn + json" where
  "py_max a b = (case py_less a b of Inl e \<Rightarrow> Inl e | Inr c \<Rightarrow> Inr (if c then b else a))"

subsection \<open>Strings\<close>

text \<open>
  \<^verbatim>\<open>str.lower\<close> on the ASCII letters. A code point outside ASCII is a run of bytes
  \<open>\<ge> 0x80\<close> in UTF-8 and is left as it is: Python maps such a code point to code points
  outside ASCII again, with two exceptions (U+212A to \<open>k\<close>, U+0130 to \<open>i\<close> followed by
  U+0307), neither of which can complete an occurrence of the ASCII pattern searched
  for below.
\<close>

definition lower_char :: "char \<Rightarrow> char" where
  "lower_char c =
     (case map_of (zip ''ABCDEFGHIJKLMNOPQRSTUVWXYZ'' ''abcdefghijklmnopqrstuvwxyz'') c of
        Some l \<Rightarrow> l
      | None \<Rightarrow> c)"

definition lower :: "string \<Rightarrow> string" where
  "lower s = map lower_char s"

primrec starts_with :: "string \<Rightarrow> string \<Rightarrow> bool" where
  "starts_with [] s = True"
| "starts_with (p # ps) s = (case s of [] \<Rightarrow> False | c # cs \<Rightarrow> p = c \<and> starts_with ps cs)"

text \<open>\<^verbatim>\<open>needle in hay\<close> for two strings.\<close>

primrec str_in :: "string \<Rightarrow> string \<Rightarrow> bool" where
  "str_in needle [] = (needle = [])"
| "str_in needle (c # cs) = (starts_with needle (c # cs) \<or> str_in needle cs)"

text \<open>
  \<^verbatim>\<open>str.strip()\<close> removes the white space of Unicode at both ends: the code points
  U+0009 to U+000D, U+001C to U+0020, U+0085, U+00A0, U+1680, U+2000 to U+200A, U+2028,
  U+2029, U+202F, U+205F and U+3000. Each is listed here by its bytes in UTF-8. UTF-8
  is self-synchronising, so a string begins (ends) with one of these byte sequences
  exactly when its first (last) code point is that white space.
\<close>

definition unicode_spaces :: "string list" where
  "unicode_spaces =
     [[CHR 0x09], [CHR 0x0A], [CHR 0x0B], [CHR 0x0C], [CHR 0x0D],
      [CHR 0x1C], [CHR 0x1D], [CHR 0x1E], [CHR 0x1F], [CHR 0x20],
      [CHR 0xC2, CHR 0x85], [CHR 0xC2, CHR 0xA0],
      [CHR 0xE1, CHR 0x9A, CHR 0x80],
      [CHR 0xE2, CHR 0x80, CHR 0x80], [CHR 0xE2, CHR 0x80, CHR 0x81],
      [CHR 0xE2, CHR 0x80, CHR 0x82], [CHR 0xE2, CHR 0x80, CHR 0x83],
      [CHR 0xE2, CHR 0x80, CHR 0x84], [CHR 0xE2, CHR 0x80, CHR 0x85],
      [CHR 0xE2, CHR 0x80, CHR 0x86], [CHR 0xE2, CHR 0x80, CHR 0x87],
      [CHR 0xE2, CHR 0x80, CHR 0x88], [CHR 0xE2, CHR 0x80, CHR 0x89],
      [CHR 0xE2, CHR 0x80, CHR 0x8A],
      [CHR 0xE2, CHR 0x80, CHR 0xA8], [CHR 0xE2, CHR 0x80, CHR 0xA9],
      [CHR 0xE2, CHR 0x80, CHR 0xAF],
      [CHR 0xE2, CHR 0x81, CHR 0x9F],
      [CHR 0xE3, CHR 0x80, CHR 0x80]]"

text \<open>
  Dropping from the front every leading occurrence of one of the given sequences. The
  test on the lengths is always passed by a sequence that the string starts with; it is
  what the termination rests on.
\<close>

function lstrip_by :: "string list \<Rightarrow> string \<Rightarrow> string" where
  "lstrip_by seqs s =
     (case find (\<lambda>p. starts_with p s) seqs of
        None \<Rightarrow> s
      | Some p \<Rightarrow>
          if p = [] \<or> length s < length p then s
          else lstrip_by seqs (drop (length p) s))"
  by pat_completeness auto
termination
  by (relation "measure (\<lambda>(seqs, s). length s)") (auto simp: neq_Nil_conv)

declare lstrip_by.simps [simp del]

definition strip :: "string \<Rightarrow> string" where
  "strip s = rev (lstrip_by (map rev unicode_spaces) (rev (lstrip_by unicode_spaces s)))"

section \<open>Configuration (\<^verbatim>\<open>config.py\<close>)\<close>

text \<open>
  The constants of the module. \<open>0.7\<close> is the double nearest to seven tenths, written as the
  rational it equals.
\<close>

definition float_0_7 :: pyfloat where
  "float_0_7 = Fin (3152519739159347 / 4503599627370496)"

definition SAMPLE_RATE :: int where "SAMPLE_RATE = 24000"
definition AUDIO_FORMAT :: string where "AUDIO_FORMAT = ''pcm16''"
definition VOICE :: string where "VOICE = ''alloy''"

definition SYSTEM_PROMPT :: string where
  "SYSTEM_PROMPT =
     ''You are a helpful voice assistant. Keep your responses concise and natural '' @ [CHR 0x0A] @
     ''for voice conversation, ideally 1-3 sentences unless more detail is specifically requested. '' @ [CHR 0x0A] @
     ''Speak in a friendly, conversational tone.''"

definition TURN_DETECTION_TYPE :: string where "TURN_DETECTION_TYPE = ''server_vad''"
definition TURN_DETECTION_THRESHOLD :: pyfloat where "TURN_DETECTION_THRESHOLD = float_0_7"
definition TURN_DETECTION_PREFIX_PADDING_MS :: int where "TURN_DETECTION_PREFIX_PADDING_MS = 200"
definition TURN_DETECTION_SILENCE_DURATION_MS :: int where "TURN_DETECTION_SILENCE_DURATION_MS = 700"

definition DEBUG :: bool where "DEBUG = True"
definition VERBOSE :: bool where "VERBOSE = False"

text \<open>
  The settings read from the environment when the module is loaded. A variable that is
  not set is \<^verbatim>\<open>None\<close>.
\<close>

record settings =
  USE_AZURE :: bool
  OPENAI_API_KEY :: "string option"
  AZURE_OPENAI_ENDPOINT :: "string option"
  AZURE_OPENAI_API_KEY :: "string option"
  AZURE_OPENAI_DEPLOYMENT :: "string option"
  ENABLE_RECORDINGS :: bool

section \<open>The bridge: state and effects\<close>

text \<open>
  A client connection and an upstream connection are objects; the model names each by a
  number. \<^verbatim>\<open>active_connections\<close> is a Python set: the list holds its elements in the
  order in which \<^verbatim>\<open>list(self.active_connections)\<close> yields them.
\<close>

type_synonym ws = nat
type_synonym up = nat
type_synonym bytes = string

record agent =
  active_connections :: "ws list"
  openai_ws :: "up option"
  session_configured :: bool
  audio_recordings :: "ws \<Rightarrow> bytes list option"
  recordings_dir :: "string option"
  current_response_id :: json
  is_responding :: bool
  last_error_time :: rat
  error_count :: int

text \<open>
  \<^verbatim>\<open>STSVoiceAgent.__init__\<close>. \<open>module_dir\<close> is \<^verbatim>\<open>Path(__file__).parent\<close>, the directory
  that holds the module.
\<close>

definition init_agent :: "settings \<Rightarrow> string \<Rightarrow> agent" where
  "init_agent cfg module_dir =
     \<lparr> active_connections = [],
       openai_ws = None,
       session_configured = False,
       audio_recordings = (\<lambda>w. None),
       recordings_dir =
         (if ENABLE_RECORDINGS cfg then Some (module_dir @ ''/'' @ ''recordings'') else None),
       current_response_id = JNull,
       is_responding = False,
       last_error_time = 0,
       error_count = 0 \<rparr>"

text \<open>The lines the code prints, by the place that prints them.\<close>

datatype diag =
    D_ws_skipped
  | D_ws_send_failed exn
  | D_session_configured
  | D_vad_updated json
  | D_browser_connected
  | D_closing_old nat
  | D_connect_target
  | D_connecting
  | D_connected
  | D_connect_timeout
  | D_connect_failed exn
  | D_session_started
  | D_forwarding_audio nat
  | D_error_sending_audio exn
  | D_cannot_send_audio
  | D_response_cancelled
  | D_invalid_json_browser
  | D_error_processing_browser exn
  | D_browser_disconnected exn
  | D_browser_error exn
  | D_event_type json
  | D_session_created
  | D_session_updated
  | D_speech_detected
  | D_speech_ended
  | D_buffer_committed
  | D_user_said json
  | D_ai_said json
  | D_response_complete
  | D_benign_error string
  | D_openai_error json
  | D_invalid_json_openai
  | D_error_processing_event exn
  | D_cannot_receive
  | D_openai_closed
  | D_openai_receive_error exn
  | D_recording_saved string nat
  | D_error_saving exn

text \<open>
  What the bridge does to the outside, in the order in which it does it.
  \<open>Ws_send_str w m\<close> and \<open>Ws_send w m\<close> are the calls \<^verbatim>\<open>w.send_str(json.dumps(m))\<close> and
  \<^verbatim>\<open>w.send(json.dumps(m))\<close> of the two client transports.
  \<open>Up_connect\<close> is one call of \<^verbatim>\<open>websockets.connect\<close> under the 30 second
  \<^verbatim>\<open>wait_for\<close>, with the keyword that carries the headers.
\<close>

datatype header_kw = Additional_headers | Extra_headers

datatype action =
    Up_connect header_kw
  | Up_send up json
  | Up_close up
  | Ws_close ws
  | Ws_send_str ws json
  | Ws_send ws json
  | Wav_write string bytes
  | Cancel_receive_task
  | Print diag

text \<open>
  What a call of \<^verbatim>\<open>send\<close> on the upstream connection raises, by the position of
  the call within the operation that makes it (\<open>None\<close>: the call returns).
\<close>

type_synonym sends = "nat \<Rightarrow> exn option"

text \<open>The messages put on the upstream connection, and those put on a client connection.\<close>

fun upstream_sends :: "action list \<Rightarrow> (up \<times> json) list" where
  "upstream_sends [] = []"
| "upstream_sends (Up_send u m # as) = (u, m) # upstream_sends as"
| "upstream_sends (_ # as) = upstream_sends as"

fun client_frames :: "action list \<Rightarrow> (ws \<times> json) list" where
  "client_frames [] = []"
| "client_frames (Ws_send_str w m # as) = (w, m) # client_frames as"
| "client_frames (Ws_send w m # as) = (w, m) # client_frames as"
| "client_frames (_ # as) = client_frames as"

subsection \<open>\<^verbatim>\<open>_send_ws_message\<close>\<close>

text \<open>
  What the helper finds on the client connection when it is called: whether the object
  is an aiohttp response (it has \<^verbatim>\<open>send_str\<close>); its \<^verbatim>\<open>closed\<close> flag, or \<open>None\<close> when the
  object has no such attribute (a connection of the \<^verbatim>\<open>websockets\<close> library from version
  14 on), in which case reading it raises \<^verbatim>\<open>AttributeError\<close>; its \<^verbatim>\<open>closing\<close> flag when
  it has one; and what the transport's send raises. Every exception is caught inside the
  helper, which therefore always returns.
\<close>

record ws_view =
  has_send_str :: bool
  ws_closed :: "bool option"
  ws_closing :: "bool option"
  ws_send_exn :: "exn option"

definition send_ws_message :: "ws_view \<Rightarrow> ws \<Rightarrow> json \<Rightarrow> action list" where
  "send_ws_message v w m =
     (case ws_closed v of
        None \<Rightarrow> [Print (D_ws_send_failed (Exn AttributeError ''closed''))]
      | Some is_closed \<Rightarrow>
          if has_send_str v then
            (if is_closed \<or> ws_closing v = Some True then [Print D_ws_skipped]
             else Ws_send_str w m #
                  (case ws_send_exn v of None \<Rightarrow> [] | Some e \<Rightarrow> [Print (D_ws_send_failed e)]))
          else
            (if is_closed then [Print D_ws_skipped]
             else Ws_send w m #
                  (case ws_send_exn v of None \<Rightarrow> [] | Some e \<Rightarrow> [Print (D_ws_send_failed e)])))"

text \<open>
  The client connection takes a message: it is not closed, not closing, and its send
  returns.
\<close>

definition ws_open :: "ws_view \<Rightarrow> bool" where
  "ws_open v = (ws_closed v = Some False \<and> ws_closing v \<noteq> Some True \<and> ws_send_exn v = None)"

subsection \<open>\<^verbatim>\<open>configure_session\<close> and \<^verbatim>\<open>update_vad_threshold\<close>\<close>

definition session_config :: json where
  "session_config =
     JObj [(''type'', JStr ''session.update''),
           (''session'', JObj
              [(''modalities'', JArr [JStr ''text'', JStr ''audio'']),
               (''instructions'', JStr SYSTEM_PROMPT),
               (''voice'', JStr VOICE),
               (''input_audio_format'', JStr AUDIO_FORMAT),
               (''output_audio_format'', JStr AUDIO_FORMAT),
               (''input_audio_transcription'',
                  JObj [(''model'', JStr ''whisper-1''), (''language'', JStr ''en'')]),
               (''turn_detection'', JObj
                  [(''type'', JStr TURN_DETECTION_TYPE),
                   (''threshold'', JFloat TURN_DETECTION_THRESHOLD),
                   (''prefix_padding_ms'', JInt TURN_DETECTION_PREFIX_PADDING_MS),
                   (''silence_duration_ms'', JInt TURN_DETECTION_SILENCE_DURATION_MS)])])]"


text \<open>\<^verbatim>\<open>threshold = max(0.0, min(1.0, threshold))\<close>\<close>

definition clamp_threshold :: "json \<Rightarrow> exn + json" where
  "clamp_threshold t =
     (case py_min (JFloat (Fin 1)) t of
        Inl e \<Rightarrow> Inl e
      | Inr m \<Rightarrow> py_max (JFloat (Fin 0)) m)"

definition update_config :: "json \<Rightarrow> json" where
  "update_config threshold =
     JObj [(''type'', JStr ''session.update''),
           (''session'', JObj
              [(''turn_detection'', JObj
                  [(''type'', JStr ''server_vad''),
                   (''threshold'', threshold),
                   (''prefix_padding_ms'', JInt TURN_DETECTION_PREFIX_PADDING_MS),
                   (''silence_duration_ms'', JInt TURN_DETECTION_SILENCE_DURATION_MS)])])]"

definition update_vad_threshold :: "sends \<Rightarrow> json \<Rightarrow> agent \<Rightarrow> action list \<times> exn option" where
  "update_vad_threshold so threshold s =
     (case openai_ws s of
        None \<Rightarrow> ([], None)
      | Some u \<Rightarrow>
          (case clamp_threshold threshold of
             Inl e \<Rightarrow> ([], Some e)
           | Inr t \<Rightarrow>
               (case so 0 of
                  Some e \<Rightarrow> ([Up_send u (update_config t)], Some e)
                | None \<Rightarrow> ([Up_send u (update_config t), Print (D_vad_updated t)], None))))"

text \<open>The turn-detection object of a \<^verbatim>\<open>session.update\<close> message, and one field of it.\<close>

definition turn_detection :: "json \<Rightarrow> exn + json" where
  "turn_detection m =
     (case dict_get m ''session'' JNull of
        Inl e \<Rightarrow> Inl e
      | Inr session \<Rightarrow> dict_get session ''turn_detection'' JNull)"

definition td_field :: "json \<Rightarrow> string \<Rightarrow> exn + json" where
  "td_field m k =
     (case turn_detection m of Inl e \<Rightarrow> Inl e | Inr td \<Rightarrow> dict_get td k JNull)"

section \<open>The upstream connector: \<^verbatim>\<open>connect_to_openai\<close>\<close>

text \<open>
  What one awaited call of \<^verbatim>\<open>websockets.connect\<close> does: it returns a connection or
  raises. The URL and the headers are arguments of that call; nothing modelled here reads
  their text.
\<close>

datatype attempt = Connected up | Raised exn

text \<open>\<^verbatim>\<open>all([endpoint, key, deployment])\<close>: a value that is \<^verbatim>\<open>None\<close> or empty is false.\<close>

definition str_truthy :: "string option \<Rightarrow> bool" where
  "str_truthy x = (case x of None \<Rightarrow> False | Some s \<Rightarrow> s \<noteq> [])"

definition azure_complete :: "settings \<Rightarrow> bool" where
  "azure_complete cfg =
     (str_truthy (AZURE_OPENAI_ENDPOINT cfg) \<and> str_truthy (AZURE_OPENAI_API_KEY cfg)
      \<and> str_truthy (AZURE_OPENAI_DEPLOYMENT cfg))"

text \<open>The test that sends a \<^verbatim>\<open>TypeError\<close> to the second call shape.\<close>

definition names_header_kw :: "exn \<Rightarrow> bool" where
  "names_header_kw te =
     (str_in ''additional_headers'' (exn_str te) \<or> str_in ''extra_headers'' (exn_str te))"

text \<open>
  The result is \<open>Inr True\<close> or \<open>Inr False\<close> where the function returns, and \<open>Inl e\<close>
  where \<open>e\<close> leaves it: the \<^verbatim>\<open>ValueError\<close> raised before the \<^verbatim>\<open>try\<close>, and the
  \<^verbatim>\<open>TypeError\<close> that the bare \<^verbatim>\<open>raise\<close> sends on.
\<close>

definition connect_to_openai ::
  "settings \<Rightarrow> attempt \<Rightarrow> attempt \<Rightarrow> agent \<Rightarrow> agent \<times> action list \<times> (exn + bool)" where
  "connect_to_openai cfg primary fallback s =
     (if USE_AZURE cfg \<and> \<not> azure_complete cfg then
        (s, [], Inl (Exn ValueError ''Azure OpenAI requires AZURE_OPENAI_ENDPOINT, AZURE_OPENAI_API_KEY, and AZURE_OPENAI_DEPLOYMENT environment variables''))
      else
        (case primary of
           Connected u \<Rightarrow>
             (s\<lparr>openai_ws := Some u\<rparr>,
              [Print D_connect_target, Print D_connecting, Up_connect Additional_headers,
               Print D_connected], Inr True)
         | Raised e \<Rightarrow>
             (if exn_cls e = TimeoutError then
                (s, [Print D_connect_target, Print D_connecting, Up_connect Additional_headers,
                     Print D_connect_timeout], Inr False)
              else if exn_cls e = TypeError then
                (if names_header_kw e then
                   (case fallback of
                      Connected u \<Rightarrow>
                        (s\<lparr>openai_ws := Some u\<rparr>,
                         [Print D_connect_target, Print D_connecting,
                          Up_connect Additional_headers, Print D_connecting,
                          Up_connect Extra_headers, Print D_connected], Inr True)
                    | Raised e2 \<Rightarrow>
                        (s, [Print D_connect_target, Print D_connecting,
                             Up_connect Additional_headers, Print D_connecting,
                             Up_connect Extra_headers,
                             Print (if exn_cls e2 = TimeoutError then D_connect_timeout
                                    else D_connect_failed e2)], Inr False))
                 else
                   (s, [Print D_connect_target, Print D_connecting,
                        Up_connect Additional_headers], Inl e))
              else
                (s, [Print D_connect_target, Print D_connecting, Up_connect Additional_headers,
                     Print (D_connect_failed e)], Inr False))))"

section \<open>The session bridge: \<^verbatim>\<open>handle_browser_websocket\<close>\<close>

subsection \<open>Accepting a client\<close>







subsection \<open>Accepting a client, step by step\<close>












subsection \<open>Commands sent upstream\<close>

definition greeting :: string where
  "greeting = ''Hello! I'' @ [CHR 0x27] @ ''m your STS voice assistant. Just start speaking and I'' @ [CHR 0x27] @ ''ll respond.''"

definition item_create :: "string \<Rightarrow> json \<Rightarrow> json" where
  "item_create role text =
     JObj [(''type'', JStr ''conversation.item.create''),
           (''item'', JObj
              [(''type'', JStr ''message''),
               (''role'', JStr role),
               (''content'', JArr [JObj [(''type'', JStr ''input_text''), (''text'', text)]])])]"

definition greeting_response_create :: json where
  "greeting_response_create =
     JObj [(''type'', JStr ''response.create''),
           (''response'', JObj [(''modalities'', JArr [JStr ''text'', JStr ''audio''])])]"

definition response_create :: json where
  "response_create = JObj [(''type'', JStr ''response.create'')]"

definition response_cancel :: json where
  "response_cancel = JObj [(''type'', JStr ''response.cancel'')]"

definition audio_append :: "json \<Rightarrow> json" where
  "audio_append audio_base64 =
     JObj [(''type'', JStr ''input_audio_buffer.append''), (''audio'', audio_base64)]"

text \<open>Two sends in a row: the second is not reached when the first raises.\<close>

definition send_two :: "sends \<Rightarrow> up \<Rightarrow> json \<Rightarrow> json \<Rightarrow> action list \<times> exn option" where
  "send_two so u m1 m2 =
     (case so 0 of
        Some e \<Rightarrow> ([Up_send u m1], Some e)
      | None \<Rightarrow> ([Up_send u m1, Up_send u m2], so 1))"

definition send_greeting :: "sends \<Rightarrow> agent \<Rightarrow> action list \<times> exn option" where
  "send_greeting so s =
     (case openai_ws s of
        None \<Rightarrow> ([], None)
      | Some u \<Rightarrow> send_two so u (item_create ''assistant'' (JStr greeting)) greeting_response_create)"

definition send_text_message :: "sends \<Rightarrow> string \<Rightarrow> agent \<Rightarrow> action list \<times> exn option" where
  "send_text_message so text s =
     (case openai_ws s of
        None \<Rightarrow> ([], None)
      | Some u \<Rightarrow> send_two so u (item_create ''user'' (JStr text)) response_create)"

subsection \<open>The error throttle\<close>

text \<open>
  \<^verbatim>\<open>if current_time - self.last_error_time > 1.0:\<close> print, remember the time and reset
  the counter; then count. The difference of two doubles is the machine's, rounded as the
  machine rounds it: \<open>float_sub\<close> stands for that subtraction and is given from outside.
\<close>

definition throttle :: "(rat \<Rightarrow> rat \<Rightarrow> rat) \<Rightarrow> rat \<Rightarrow> diag \<Rightarrow> agent \<Rightarrow> agent \<times> action list" where
  "throttle float_sub current_time d s =
     (case (if float_sub current_time (last_error_time s) > 1
            then (s\<lparr>last_error_time := current_time, error_count := 0\<rparr>, [Print d])
            else (s, [])) of
        (s1, a) \<Rightarrow> (s1\<lparr>error_count := error_count s1 + 1\<rparr>, a))"

subsection \<open>One client message\<close>

text \<open>
  What receiving and parsing one message gives: the decoding of the frame or
  \<^verbatim>\<open>json.loads\<close> raises, or there is a parsed value.
\<close>

datatype raw = Unparsed exn | Json json

text \<open>
  What the world does while one message is handled: the clock, the subtraction of
  doubles, what the upstream sends raise, and \<^verbatim>\<open>base64.b64decode\<close>.
\<close>

record msg_env =
  now :: rat
  fsub :: "rat \<Rightarrow> rat \<Rightarrow> rat"
  up_send_exn :: sends
  b64decode :: "json \<Rightarrow> exn + bytes"

text \<open>
  The branch for \<^verbatim>\<open>input_audio_buffer.append\<close>. The entry of the recording is created
  before the payload is decoded, so it stays when the decoding raises.
\<close>

definition handle_audio_append ::
  "settings \<Rightarrow> msg_env \<Rightarrow> ws \<Rightarrow> json \<Rightarrow> agent \<Rightarrow> agent \<times> action list \<times> exn option" where
  "handle_audio_append cfg env websocket audio_base64 s =
     (case (if VERBOSE then
              (case b64decode env audio_base64 of
                 Inl e \<Rightarrow> Inl e
               | Inr audio_bytes \<Rightarrow> Inr [Print (D_forwarding_audio (length audio_bytes))])
            else Inr []) of
        Inl e \<Rightarrow> (s, [], Some e)
      | Inr a0 \<Rightarrow>
          (case (if ENABLE_RECORDINGS cfg then
                   (case (case audio_recordings s websocket of None \<Rightarrow> [] | Some c \<Rightarrow> c) of
                      chunks \<Rightarrow>
                        (case b64decode env audio_base64 of
                           Inl e \<Rightarrow>
                             Inl (s\<lparr>audio_recordings :=
                                      (audio_recordings s)(websocket := Some chunks)\<rparr>, e)
                         | Inr b \<Rightarrow>
                             Inr (s\<lparr>audio_recordings :=
                                      (audio_recordings s)(websocket := Some (chunks @ [b]))\<rparr>)))
                 else Inr s) of
             Inl (s1, e) \<Rightarrow> (s1, a0, Some e)
           | Inr s2 \<Rightarrow>
               (case openai_ws s2 of
                  Some u \<Rightarrow>
                    (case up_send_exn env 0 of
                       None \<Rightarrow> (s2, a0 @ [Up_send u (audio_append audio_base64)], None)
                     | Some e \<Rightarrow>
                         (case throttle (fsub env) (now env) (D_error_sending_audio e) s2 of
                            (s3, a) \<Rightarrow>
                              ((if str_in ''closed'' (lower (exn_str e))
                                   \<or> str_in ''connection'' (lower (exn_str e))
                                then s3\<lparr>openai_ws := None\<rparr> else s3),
                               a0 @ Up_send u (audio_append audio_base64) # a, None)))
                | None \<Rightarrow>
                    (case throttle (fsub env) (now env) D_cannot_send_audio s2 of
                       (s3, a) \<Rightarrow> (s3, a0 @ a, None)))))"

text \<open>
  The body of the inner \<^verbatim>\<open>try\<close>, after \<^verbatim>\<open>json.loads\<close>: the state, what was done, and
  the exception that leaves the body, if one does.
\<close>

definition handle_browser_data ::
  "settings \<Rightarrow> msg_env \<Rightarrow> ws \<Rightarrow> json \<Rightarrow> agent \<Rightarrow> agent \<times> action list \<times> exn option" where
  "handle_browser_data cfg env websocket data s =
     (case dict_get data ''type'' JNull of
        Inl e \<Rightarrow> (s, [], Some e)
      | Inr msg_type \<Rightarrow>
          if msg_type = JStr ''session_start'' then
            (case send_greeting (up_send_exn env) s of
               (a, r) \<Rightarrow> (s, Print D_session_started # a, r))
          else if msg_type = JStr ''input_audio_buffer.append'' then
            (case dict_get data ''audio'' (JStr []) of
               Inl e \<Rightarrow> (s, [], Some e)
             | Inr audio_base64 \<Rightarrow> handle_audio_append cfg env websocket audio_base64 s)
          else if msg_type = JStr ''interrupt'' then
            (case (is_responding s \<and> truthy (current_response_id s), openai_ws s) of
               (True, Some u) \<Rightarrow>
                 (case up_send_exn env 0 of
                    Some e \<Rightarrow> (s, [Up_send u response_cancel], Some e)
                  | None \<Rightarrow> (s, [Up_send u response_cancel, Print D_response_cancelled], None))
             | _ \<Rightarrow> (s, [], None))
          else if msg_type = JStr ''text_message'' then
            (case dict_get data ''text'' (JStr []) of
               Inl e \<Rightarrow> (s, [], Some e)
             | Inr (JStr t) \<Rightarrow>
                 (if strip t \<noteq> [] then
                    (case send_text_message (up_send_exn env) (strip t) s of (a, r) \<Rightarrow> (s, a, r))
                  else (s, [], None))
             | Inr v \<Rightarrow> (s, [], Some (Exn AttributeError ''strip'')))
          else if msg_type = JStr ''update_sensitivity'' then
            (case dict_get data ''threshold'' (JFloat float_0_7) of
               Inl e \<Rightarrow> (s, [], Some e)
             | Inr threshold \<Rightarrow>
                 (case update_vad_threshold (up_send_exn env) threshold s of
                    (a, r) \<Rightarrow> (s, a, r)))
          else (s, [], None))"

text \<open>
  One turn of the message loop: the inner \<^verbatim>\<open>try\<close> with its two handlers. Neither
  handler raises again, so the loop goes on to the next message in every case.
\<close>

definition on_browser_exception :: "msg_env \<Rightarrow> exn \<Rightarrow> agent \<Rightarrow> agent \<times> action list" where
  "on_browser_exception env e s =
     (if exn_cls e = JSONDecodeError then (s, [Print D_invalid_json_browser])
      else throttle (fsub env) (now env) (D_error_processing_browser e) s)"

definition handle_browser_message ::
  "settings \<Rightarrow> msg_env \<Rightarrow> ws \<Rightarrow> raw \<Rightarrow> agent \<Rightarrow> agent \<times> action list" where
  "handle_browser_message cfg env websocket message s =
     (case message of
        Unparsed e \<Rightarrow> on_browser_exception env e s
      | Json data \<Rightarrow>
          (case handle_browser_data cfg env websocket data s of
             (s1, a, None) \<Rightarrow> (s1, a)
           | (s1, a, Some e) \<Rightarrow>
               (case on_browser_exception env e s1 of (s2, a2) \<Rightarrow> (s2, a @ a2))))"

text \<open>The loop \<^verbatim>\<open>async for message in websocket\<close> over the messages that arrive.\<close>

fun browser_loop ::
  "settings \<Rightarrow> ws \<Rightarrow> (msg_env \<times> raw) list \<Rightarrow> agent \<Rightarrow> agent \<times> action list" where
  "browser_loop cfg websocket [] s = (s, [])"
| "browser_loop cfg websocket ((env, message) # rest) s =
     (case handle_browser_message cfg env websocket message s of
        (s1, a1) \<Rightarrow>
          (case browser_loop cfg websocket rest s1 of
             (s2, a2) \<Rightarrow> (s2, a1 @ a2)))"

section \<open>The event translator: \<^verbatim>\<open>receive_from_openai\<close>\<close>

definition typed :: "string \<Rightarrow> json" where
  "typed t = JObj [(''type'', JStr t)]"

text \<open>
  The body of the inner \<^verbatim>\<open>try\<close> for one parsed event; \<open>v\<close> is what the client helper
  finds on the client connection while the event is handled. In each branch whatever can
  raise is evaluated before the state is assigned and before the helper is called.
\<close>

definition handle_event ::
  "ws_view \<Rightarrow> ws \<Rightarrow> json \<Rightarrow> agent \<Rightarrow> agent \<times> action list \<times> exn option" where
  "handle_event v browser_ws event s =
     (case dict_get event ''type'' (JStr []) of
        Inl e \<Rightarrow> (s, [], Some e)
      | Inr event_type \<Rightarrow>
          (case (if DEBUG \<and> event_type \<noteq> JStr ''response.audio.delta''
                 then [Print (D_event_type event_type)] else []) of
             a0 \<Rightarrow>
               if event_type = JStr ''session.created'' then
                 (s, a0 @ [Print D_session_created], None)
               else if event_type = JStr ''session.updated'' then
                 (s, a0 @ [Print D_session_updated], None)
               else if event_type = JStr ''input_audio_buffer.speech_started'' then
                 (s, a0 @ send_ws_message v browser_ws (typed ''speech_started'')
                       @ (if DEBUG then [Print D_speech_detected] else []), None)
               else if event_type = JStr ''input_audio_buffer.speech_stopped'' then
                 (s, a0 @ send_ws_message v browser_ws (typed ''speech_stopped'')
                       @ (if DEBUG then [Print D_speech_ended] else []), None)
               else if event_type = JStr ''input_audio_buffer.committed'' then
                 (s, a0 @ (if DEBUG then [Print D_buffer_committed] else []), None)
               else if event_type = JStr ''conversation.item.input_audio_transcription.completed'' then
                 (case dict_get event ''transcript'' (JStr []) of
                    Inl e \<Rightarrow> (s, a0, Some e)
                  | Inr transcript \<Rightarrow>
                      (if truthy transcript then
                         (s, a0 @ send_ws_message v browser_ws
                                     (JObj [(''type'', JStr ''transcript''), (''text'', transcript)])
                               @ (if DEBUG then [Print (D_user_said transcript)] else []), None)
                       else (s, a0, None)))
               else if event_type = JStr ''response.created'' then
                 (case dict_get event ''response'' (JObj []) of
                    Inl e \<Rightarrow> (s, a0, Some e)
                  | Inr response \<Rightarrow>
                      (case dict_get response ''id'' JNull of
                         Inl e \<Rightarrow> (s, a0, Some e)
                       | Inr rid \<Rightarrow>
                           (s\<lparr>current_response_id := rid, is_responding := True\<rparr>,
                            a0 @ send_ws_message v browser_ws
                                    (JObj [(''type'', JStr ''thinking''), (''status'', JStr ''start'')]),
                            None)))
               else if event_type = JStr ''response.output_item.added'' then (s, a0, None)
               else if event_type = JStr ''response.content_part.added'' then (s, a0, None)
               else if event_type = JStr ''response.audio_transcript.delta'' then
                 (case dict_get event ''delta'' (JStr []) of
                    Inl e \<Rightarrow> (s, a0, Some e)
                  | Inr delta \<Rightarrow>
                      (if truthy delta then
                         (s, a0 @ send_ws_message v browser_ws
                                     (JObj [(''type'', JStr ''response_transcript_delta''),
                                            (''delta'', delta)]), None)
                       else (s, a0, None)))
               else if event_type = JStr ''response.audio_transcript.done'' then
                 (case dict_get event ''transcript'' (JStr []) of
                    Inl e \<Rightarrow> (s, a0, Some e)
                  | Inr transcript \<Rightarrow>
                      (if truthy transcript then
                         (s, a0 @ send_ws_message v browser_ws
                                     (JObj [(''type'', JStr ''response_text''), (''text'', transcript)])
                               @ (if DEBUG then [Print (D_ai_said transcript)] else []), None)
                       else (s, a0, None)))
               else if event_type = JStr ''response.audio.delta'' then
                 (case dict_get event ''delta'' (JStr []) of
                    Inl e \<Rightarrow> (s, a0, Some e)
                  | Inr audio_base64 \<Rightarrow>
                      (if truthy audio_base64 then
                         (s, a0 @ send_ws_message v browser_ws
                                     (JObj [(''type'', JStr ''audio_chunk''),
                                            (''audio'', audio_base64)]), None)
                       else (s, a0, None)))
               else if event_type = JStr ''response.audio.done'' then
                 (s, a0 @ send_ws_message v browser_ws (typed ''audio_complete''), None)
               else if event_type = JStr ''response.done'' then
                 (s\<lparr>is_responding := False, current_response_id := JNull\<rparr>,
                  a0 @ send_ws_message v browser_ws (typed ''response_done'')
                     @ (if DEBUG then [Print D_response_complete] else []), None)
               else if event_type = JStr ''error'' then
                 (case dict_get event ''error'' (JObj []) of
                    Inl e \<Rightarrow> (s, a0, Some e)
                  | Inr error \<Rightarrow>
                      (case dict_get error ''message'' (JStr ''Unknown error'') of
                         Inl e \<Rightarrow> (s, a0, Some e)
                       | Inr (JStr error_msg) \<Rightarrow>
                           (if str_in ''no active response'' (lower error_msg) then
                              (s, a0 @ (if DEBUG then [Print (D_benign_error error_msg)] else []), None)
                            else
                              (s, a0 @ Print (D_openai_error error) #
                                        send_ws_message v browser_ws
                                          (JObj [(''type'', JStr ''error''),
                                                 (''message'', JStr error_msg)]), None))
                       | Inr other \<Rightarrow> (s, a0, Some (Exn AttributeError ''lower''))))
               else if event_type = JStr ''rate_limits.updated'' then (s, a0, None)
               else (s, a0, None)))"

text \<open>One turn of the receiving loop: the inner \<^verbatim>\<open>try\<close> with its two handlers.\<close>

definition on_event_exception :: "exn \<Rightarrow> action list" where
  "on_event_exception e =
     (if exn_cls e = JSONDecodeError then [Print D_invalid_json_openai]
      else [Print (D_error_processing_event e)])"

definition receive_step :: "ws_view \<Rightarrow> ws \<Rightarrow> raw \<Rightarrow> agent \<Rightarrow> agent \<times> action list" where
  "receive_step v browser_ws message s =
     (case message of
        Unparsed e \<Rightarrow> (s, on_event_exception e)
      | Json event \<Rightarrow>
          (case handle_event v browser_ws event s of
             (s1, a, None) \<Rightarrow> (s1, a)
           | (s1, a, Some e) \<Rightarrow> (s1, a @ on_event_exception e)))"

fun receive_loop :: "ws \<Rightarrow> (ws_view \<times> raw) list \<Rightarrow> agent \<Rightarrow> agent \<times> action list" where
  "receive_loop browser_ws [] s = (s, [])"
| "receive_loop browser_ws ((v, message) # rest) s =
     (case receive_step v browser_ws message s of
        (s1, a1) \<Rightarrow>
          (case receive_loop browser_ws rest s1 of
             (s2, a2) \<Rightarrow> (s2, a1 @ a2)))"

text \<open>
  The whole task: the messages that arrive, each with what the helper finds on the client
  connection at that time, and how the iteration ends (\<open>None\<close>: the connection is
  exhausted; \<open>Some e\<close>: receiving raises \<open>e\<close>).
\<close>

definition receive_from_openai ::
  "ws \<Rightarrow> (ws_view \<times> raw) list \<Rightarrow> exn option \<Rightarrow> agent \<Rightarrow> agent \<times> action list" where
  "receive_from_openai browser_ws messages ending s =
     (case openai_ws s of
        None \<Rightarrow> (s, [Print D_cannot_receive])
      | Some u \<Rightarrow>
          (case receive_loop browser_ws messages s of
             (s1, a) \<Rightarrow>
               (s1, a @ (case ending of
                           None \<Rightarrow> []
                         | Some e \<Rightarrow>
                             if exn_cls e = ConnectionClosed then [Print D_openai_closed]
                             else [Print (D_openai_receive_error e)]))))"

section \<open>The audio capture sink: \<^verbatim>\<open>save_recording\<close>\<close>

text \<open>
  What the world does while a recording is saved: the time stamp that names the file, and
  what writing the file raises. \<open>Wav_write path data\<close> is a file written in full; when
  the writing raises, nothing is said about the file.
\<close>

record rec_env =
  timestamp :: string
  wav_exn :: "exn option"

definition remove_recording :: "ws \<Rightarrow> agent \<Rightarrow> agent" where
  "remove_recording websocket s =
     s\<lparr>audio_recordings := (audio_recordings s)(websocket := None)\<rparr>"

definition save_recording :: "rec_env \<Rightarrow> ws \<Rightarrow> agent \<Rightarrow> agent \<times> action list" where
  "save_recording env websocket s =
     (case audio_recordings s websocket of
        None \<Rightarrow> (s, [])
      | Some audio_chunks \<Rightarrow>
          (if audio_chunks = [] then (remove_recording websocket s, [])
           else
             (case concat audio_chunks of
                audio_data \<Rightarrow>
                  (if length audio_data = 0 then (remove_recording websocket s, [])
                   else
                     (case recordings_dir s of
                        None \<Rightarrow>
                          (remove_recording websocket s,
                           [Print (D_error_saving (Exn TypeError ''unsupported operand type(s) for /''))])
                      | Some dir \<Rightarrow>
                          (case dir @ ''/'' @ ''recording_'' @ timestamp env @ ''.wav'' of
                             filepath \<Rightarrow>
                               (case wav_exn env of
                                  Some e \<Rightarrow>
                                    (remove_recording websocket s, [Print (D_error_saving e)])
                                | None \<Rightarrow>
                                    (remove_recording websocket s,
                                     [Wav_write filepath audio_data,
                                      Print (D_recording_saved filepath (length audio_data))]))))))))"

text \<open>The files written by a run.\<close>

fun files_written :: "action list \<Rightarrow> (string \<times> bytes) list" where
  "files_written [] = []"
| "files_written (Wav_write path data # as) = (path, data) # files_written as"
| "files_written (_ # as) = files_written as"

subsection \<open>The end of a session\<close>

text \<open>
  The \<^verbatim>\<open>finally\<close> block of the handler. \<open>close_exn\<close> is what closing the upstream
  connection raises; that exception leaves the handler.
\<close>

definition handle_browser_websocket_finally ::
  "settings \<Rightarrow> rec_env \<Rightarrow> exn option \<Rightarrow> ws \<Rightarrow> agent \<Rightarrow> agent \<times> action list \<times> exn option" where
  "handle_browser_websocket_finally cfg env close_exn websocket s =
     (case (if ENABLE_RECORDINGS cfg \<and> audio_recordings s websocket \<noteq> None
            then save_recording env websocket s else (s, [])) of
        (s1, a1) \<Rightarrow>
          (case (openai_ws s1, close_exn) of
             (Some u, Some e) \<Rightarrow> (s1, Cancel_receive_task # a1 @ [Up_close u], Some e)
           | (Some u, None) \<Rightarrow>
               (s1\<lparr>openai_ws := None,
                   active_connections := removeAll websocket (active_connections s1),
                   session_configured := False\<rparr>,
                Cancel_receive_task # a1 @ [Up_close u], None)
           | (None, _) \<Rightarrow>
               (s1\<lparr>active_connections := removeAll websocket (active_connections s1),
                   session_configured := False\<rparr>,
                Cancel_receive_task # a1, None)))"

section \<open>Vocabulary of the properties\<close>





text \<open>
  The message types that the loop of the handler has a branch for; a parsed message that is
  an object with any other \<^verbatim>\<open>type\<close> (or none) falls through every branch. A message that
  cannot be parsed makes the decoding of the frame or \<^verbatim>\<open>json.loads\<close> raise:
  \<^verbatim>\<open>JSONDecodeError\<close> for a text that is not JSON, another exception otherwise (a binary
  frame that is not UTF-8, a number with more digits than the interpreter converts).
\<close>

definition known_types :: "string list" where
  "known_types = [''session_start'', ''input_audio_buffer.append'', ''interrupt'',
                  ''text_message'', ''update_sensitivity'']"

fun unrecognized :: "raw \<Rightarrow> bool" where
  "unrecognized (Json (JObj kvs)) =
     (case map_of kvs ''type'' of
        Some (JStr t) \<Rightarrow> t \<notin> set known_types
      | _ \<Rightarrow> True)"
| "unrecognized _ = False"

fun unparsed :: "raw \<Rightarrow> bool" where
  "unparsed (Unparsed e) = True"
| "unparsed _ = False"

fun json_decode_error :: "raw \<Rightarrow> bool" where
  "json_decode_error (Unparsed e) = (exn_cls e = JSONDecodeError)"
| "json_decode_error _ = False"

text \<open>The state of the bridge apart from the two fields of the throttle.\<close>

definition same_but_throttle :: "agent \<Rightarrow> agent \<Rightarrow> bool" where
  "same_but_throttle s s' =
     (s' = s\<lparr>last_error_time := last_error_time s', error_count := error_count s'\<rparr>)"

fun is_print :: "action \<Rightarrow> bool" where
  "is_print (Print d) = True"
| "is_print _ = False"






subsection \<open>Sample inputs\<close>

definition openai_settings :: settings where
  "openai_settings =
     \<lparr> USE_AZURE = False, OPENAI_API_KEY = Some ''sk-test'', AZURE_OPENAI_ENDPOINT = None,
       AZURE_OPENAI_API_KEY = None, AZURE_OPENAI_DEPLOYMENT = None, ENABLE_RECORDINGS = True \<rparr>"

definition azure_settings_no_deployment :: settings where
  "azure_settings_no_deployment =
     \<lparr> USE_AZURE = True, OPENAI_API_KEY = None,
       AZURE_OPENAI_ENDPOINT = Some ''https://example.openai.azure.com'',
       AZURE_OPENAI_API_KEY = Some ''key'', AZURE_OPENAI_DEPLOYMENT = None,
       ENABLE_RECORDINGS = False \<rparr>"

definition idle_agent :: agent where
  "idle_agent = init_agent openai_settings ''/app''"

text \<open>A bridge with client 1 connected to upstream 7.\<close>

definition live_agent :: agent where
  "live_agent = idle_agent\<lparr>active_connections := [1], openai_ws := Some 7,
                            session_configured := True\<rparr>"

definition sends_ok :: sends where
  "sends_ok k = None"

definition b64_empty :: "json \<Rightarrow> exn + bytes" where
  "b64_empty v = Inr []"

text \<open>The difference of \<open>1000.0\<close> and \<open>0\<close> is exact.\<close>

definition exact_sub :: "rat \<Rightarrow> rat \<Rightarrow> rat" where
  "exact_sub a b = a - b"

definition calm :: msg_env where
  "calm = \<lparr> now = 1000, fsub = exact_sub, up_send_exn = sends_ok, b64decode = b64_empty \<rparr>"

text \<open>An aiohttp client connection that is open.\<close>

definition open_view :: ws_view where
  "open_view = \<lparr> has_send_str = True, ws_closed = Some False, ws_closing = Some False,
                 ws_send_exn = None \<rparr>"

text \<open>Error events without a message text.\<close>

definition error_event_429 :: json where
  "error_event_429 =
     JObj [(''type'', JStr ''error''), (''error'', JObj [(''message'', JInt 429)])]"

definition error_event_null :: json where
  "error_event_null = JObj [(''type'', JStr ''error''), (''error'', JNull)]"





definition rec_ok :: rec_env where
  "rec_ok = \<lparr> timestamp = ''20240101_120000'', wav_exn = None \<rparr>"

definition with_recording :: "ws \<Rightarrow> bytes list \<Rightarrow> agent \<Rightarrow> agent" where
  "with_recording w chunks s = s\<lparr>audio_recordings := (audio_recordings s)(w := Some chunks)\<rparr>"

definition error_event :: "string \<Rightarrow> json" where
  "error_event m = JObj [(''type'', JStr ''error''), (''error'', JObj [(''message'', JStr m)])]"

definition created_event :: "string \<Rightarrow> json" where
  "created_event r = JObj [(''type'', JStr ''response.created''), (''response'', JObj [(''id'', JStr r)])]"

definition ping :: raw where
  "ping = Json (JObj [(''type'', JStr ''ping'')])"

definition garbage :: raw where
  "garbage = Unparsed (Exn JSONDecodeError ''Expecting value: line 1 column 1 (char 0)'')"

text \<open>A binary frame that is not UTF-8: decoding it raises.\<close>

definition binary_frame :: raw where
  "binary_frame = Unparsed (Exn UnicodeDecodeError ''invalid start byte'')"

definition dns_failure :: exn where
  "dns_failure = Exn (OtherException ''gaierror'') ''[Errno -2] Name or service not known''"

section \<open>Properties of the session configurator\<close>

lemma clamp_threshold_Fin:
  "clamp_threshold (JFloat (Fin t)) = Inr (JFloat (Fin (max 0 (min 1 t))))"
  by (simp add: clamp_threshold_def py_min_def py_max_def py_less_def max_def min_def)

text \<open>
  The infinities are clamped like numbers. For NaN both comparisons are false, so
  \<^verbatim>\<open>min(1.0, nan)\<close> keeps \<open>1.0\<close>.
\<close>

lemma clamp_threshold_special:
  "clamp_threshold (JFloat PInf) = Inr (JFloat (Fin 1))"
  "clamp_threshold (JFloat NInf) = Inr (JFloat (Fin 0))"
  "clamp_threshold (JFloat NaN) = Inr (JFloat (Fin 1))"
  by (simp_all add: clamp_threshold_def py_min_def py_max_def py_less_def)

text \<open>An integer or a truth value is clamped to a float; anything else raises.\<close>

lemma clamp_threshold_other:
  "clamp_threshold (JInt i) = Inr (JFloat (Fin (max 0 (min 1 (of_int i)))))"
  "clamp_threshold (JBool b) = Inr (JFloat (Fin (if b then 1 else 0)))"
  "clamp_threshold JNull = Inl (Exn TypeError ''not supported between instances'')"
  "clamp_threshold (JStr x) = Inl (Exn TypeError ''not supported between instances'')"
  "clamp_threshold (JArr xs) = Inl (Exn TypeError ''not supported between instances'')"
  "clamp_threshold (JObj kvs) = Inl (Exn TypeError ''not supported between instances'')"
  by (simp_all add: clamp_threshold_def py_min_def py_max_def py_less_def max_def min_def)

lemma upstream_sends_update:
  "openai_ws s = Some u \<Longrightarrow> clamp_threshold t = Inr th \<Longrightarrow>
   upstream_sends (fst (update_vad_threshold so t s)) = [(u, update_config th)]"
  by (simp add: update_vad_threshold_def split: option.splits)

lemma td_field_update_config_threshold:
  "td_field (update_config th) ''threshold'' = Inr th"
  by (simp add: td_field_def turn_detection_def update_config_def)

text \<open>
  Claim C8. On a bridge that has an upstream connection, \<^verbatim>\<open>update_vad_threshold\<close> called
  with a float \<open>t\<close> puts exactly one message on that connection, the turn-detection update
  whose threshold is \<open>max 0 (min 1 t)\<close>. In particular \<open>1.5\<close> gives \<open>1.0\<close> and \<open>-0.2\<close> (the
  double nearest to it, written as a fraction) gives \<open>0.0\<close>. This holds whatever the send
  raises.
\<close>

theorem update_vad_threshold_clamps:
  assumes "openai_ws s = Some u"
  shows "upstream_sends (fst (update_vad_threshold so (JFloat (Fin t)) s))
           = [(u, update_config (JFloat (Fin (max 0 (min 1 t)))))]
       \<and> td_field (update_config (JFloat (Fin (max 0 (min 1 t))))) ''threshold''
           = Inr (JFloat (Fin (max 0 (min 1 t))))
       \<and> upstream_sends (fst (update_vad_threshold so (JFloat (Fin (3 / 2))) s))
           = [(u, update_config (JFloat (Fin 1)))]
       \<and> upstream_sends (fst (update_vad_threshold so
             (JFloat (Fin (- (3602879701896397 / 18014398509481984)))) s))
           = [(u, update_config (JFloat (Fin 0)))]"
proof -
  have a: "\<And>r. upstream_sends (fst (update_vad_threshold so (JFloat (Fin r)) s))
           = [(u, update_config (JFloat (Fin (max 0 (min 1 r)))))]"
    using assms by (simp add: upstream_sends_update clamp_threshold_Fin)
  have b: "max 0 (min 1 (3 / 2 :: rat)) = 1" by simp
  have c: "max 0 (min 1 (- (3602879701896397 / 18014398509481984) :: rat)) = 0" by simp
  show ?thesis
    using a [of t] a [of "3 / 2"] a [of "- (3602879701896397 / 18014398509481984)"] b c
    by (simp only: td_field_update_config_threshold simp_thms)
qed

theorem update_vad_threshold_clamps_witness:
  "openai_ws live_agent = Some 7
   \<and> upstream_sends (fst (update_vad_threshold sends_ok (JFloat (Fin (3 / 2))) live_agent))
       = [(7, update_config (JFloat (Fin 1)))]
   \<and> upstream_sends (fst (update_vad_threshold sends_ok
         (JFloat (Fin (- (3602879701896397 / 18014398509481984)))) live_agent))
       = [(7, update_config (JFloat (Fin 0)))]"
proof -
  have h: "openai_ws live_agent = Some 7" by (simp add: live_agent_def)
  show ?thesis using h update_vad_threshold_clamps [OF h, of sends_ok 0] by simp
qed

text \<open>
  Claim C9. The update that \<^verbatim>\<open>update_vad_threshold\<close> sends holds a session object with the
  turn-detection object alone, and that object is the configured one (the one
  \<^verbatim>\<open>configure_session\<close> sends) with the threshold replaced: the same keys in the same
  order, and the type, the prefix padding and the trailing-silence duration at the values
  of \<^verbatim>\<open>config.py\<close>. The type is written as the literal \<open>server_vad\<close> in the operation; it
  is the value of \<open>TURN_DETECTION_TYPE\<close>.
\<close>

theorem update_vad_threshold_frame:
  assumes "openai_ws s = Some u" and "clamp_threshold t = Inr th"
  shows "\<exists>m td td0.
           upstream_sends (fst (update_vad_threshold so t s)) = [(u, m)]
         \<and> dict_get m ''session'' JNull = Inr (JObj [(''turn_detection'', JObj td)])
         \<and> turn_detection session_config = Inr (JObj td0)
         \<and> map fst td = map fst td0
         \<and> td = map (\<lambda>(k, v). (k, if k = ''threshold'' then th else v)) td0
         \<and> td_field m ''type'' = Inr (JStr TURN_DETECTION_TYPE)
         \<and> td_field m ''prefix_padding_ms'' = Inr (JInt TURN_DETECTION_PREFIX_PADDING_MS)
         \<and> td_field m ''silence_duration_ms'' = Inr (JInt TURN_DETECTION_SILENCE_DURATION_MS)
         \<and> td_field m ''type'' = td_field session_config ''type''
         \<and> td_field m ''prefix_padding_ms'' = td_field session_config ''prefix_padding_ms''
         \<and> td_field m ''silence_duration_ms'' = td_field session_config ''silence_duration_ms''"
proof -
  have sends: "upstream_sends (fst (update_vad_threshold so t s)) = [(u, update_config th)]"
    using assms by (rule upstream_sends_update)
  show ?thesis
    unfolding sends
    by (simp add: update_config_def session_config_def td_field_def turn_detection_def
        TURN_DETECTION_TYPE_def)
qed

theorem update_vad_threshold_frame_witness:
  "openai_ws live_agent = Some 7 \<and> clamp_threshold (JFloat (Fin (1 / 4))) = Inr (JFloat (Fin (1 / 4)))
   \<and> (\<exists>m. upstream_sends (fst (update_vad_threshold sends_ok (JFloat (Fin (1 / 4))) live_agent)) = [(7, m)]
         \<and> td_field m ''type'' = td_field session_config ''type''
         \<and> td_field m ''prefix_padding_ms'' = Inr (JInt 200)
         \<and> td_field m ''silence_duration_ms'' = Inr (JInt 700))"
proof -
  have h: "openai_ws live_agent = Some 7" by (simp add: live_agent_def)
  have c: "clamp_threshold (JFloat (Fin (1 / 4))) = Inr (JFloat (Fin (1 / 4)))"
    by (simp add: clamp_threshold_Fin)
  from update_vad_threshold_frame [OF h c, of sends_ok] obtain m where
    "upstream_sends (fst (update_vad_threshold sends_ok (JFloat (Fin (1 / 4))) live_agent)) = [(7, m)]"
    "td_field m ''type'' = td_field session_config ''type''"
    "td_field m ''prefix_padding_ms'' = Inr (JInt TURN_DETECTION_PREFIX_PADDING_MS)"
    "td_field m ''silence_duration_ms'' = Inr (JInt TURN_DETECTION_SILENCE_DURATION_MS)"
    by blast
  then show ?thesis using h c
    by (auto simp: TURN_DETECTION_PREFIX_PADDING_MS_def TURN_DETECTION_SILENCE_DURATION_MS_def)
qed

section \<open>Properties of the command translator\<close>











section \<open>Properties of the event translator\<close>

lemma client_frames_append: "client_frames (a @ b) = client_frames a @ client_frames b"
  by (induction a rule: client_frames.induct) simp_all

lemma client_frames_send_open:
  "ws_open v \<Longrightarrow> client_frames (send_ws_message v w m) = [(w, m)]"
  by (auto simp: ws_open_def send_ws_message_def)

lemma client_frames_send_shut:
  "ws_closed v \<noteq> Some False \<or> (has_send_str v \<and> ws_closing v = Some True)
   \<Longrightarrow> client_frames (send_ws_message v w m) = []"
  by (auto simp: send_ws_message_def split: option.splits)

lemma client_frames_on_event_exception: "client_frames (on_event_exception e) = []"
  by (simp add: on_event_exception_def)

lemma receive_step_error:
  assumes "dict_get event ''type'' (JStr []) = Inr (JStr ''error'')"
      and "dict_get event ''error'' (JObj []) = Inr error"
      and "dict_get error ''message'' (JStr ''Unknown error'') = Inr (JStr error_msg)"
  shows "receive_step v browser_ws (Json event) s =
           (s, Print (D_event_type (JStr ''error'')) #
               (if str_in ''no active response'' (lower error_msg)
                then [Print (D_benign_error error_msg)]
                else Print (D_openai_error error) #
                     send_ws_message v browser_ws
                       (JObj [(''type'', JStr ''error''), (''message'', JStr error_msg)])))"
  using assms by (simp add: receive_step_def handle_event_def DEBUG_def)

lemma receive_step_error_no_text:
  assumes "dict_get event ''type'' (JStr []) = Inr (JStr ''error'')"
      and "\<not> (\<exists>error m. dict_get event ''error'' (JObj []) = Inr error
                \<and> dict_get error ''message'' (JStr ''Unknown error'') = Inr (JStr m))"
  shows "fst (receive_step v browser_ws (Json event) s) = s
       \<and> client_frames (snd (receive_step v browser_ws (Json event) s)) = []"
proof -
  from assms(1) obtain kvs where ev: "event = JObj kvs" by (cases event) simp_all
  then obtain error where er: "dict_get event ''error'' (JObj []) = Inr error" by simp
  show ?thesis
  proof (cases "dict_get error ''message'' (JStr ''Unknown error'')")
    case (Inl e)
    with assms(1) er show ?thesis
      by (auto simp: receive_step_def handle_event_def DEBUG_def on_event_exception_def)
  next
    case (Inr x)
    with assms(2) er have nx: "\<forall>m. x \<noteq> JStr m" by auto
    with assms(1) er Inr show ?thesis
      by (cases x) (auto simp: receive_step_def handle_event_def DEBUG_def on_event_exception_def)
  qed
qed

text \<open>
  Claim C2, as stated, fails: an event of type \<open>error\<close> whose message is the number 429,
  or whose \<open>error\<close> is \<^verbatim>\<open>null\<close>, has no text that could contain \<open>no active response\<close>,
  yet nothing is sent to the client, although the client connection is open: the lookup
  of the text raises inside the handler, and the handler only prints.
\<close>

theorem error_event_counterexample:
  "ws_open open_view
   \<and> client_frames (snd (receive_step open_view 1 (Json error_event_429) live_agent)) = []
   \<and> client_frames (snd (receive_step open_view 1 (Json error_event_null) live_agent)) = []"
  by (simp add: ws_open_def open_view_def error_event_429_def error_event_null_def
      receive_step_def handle_event_def DEBUG_def on_event_exception_def)

text \<open>
  Claim C2, amended. An upstream event of type \<open>error\<close> leaves the state of the bridge as
  it is. When its \<open>error\<close> object carries a message text (the text \<open>Unknown error\<close>
  stands in when the object, or its message, is absent) and the client connection is
  open (not closed, not closing, its send returns), nothing is put on the client
  connection if the lower-cased text contains \<open>no active response\<close>, and otherwise
  exactly one message, of type \<open>error\<close> with that text unchanged. When the event has no
  message text (its \<open>error\<close> is not an object, or the message is not a string), nothing
  is put on the client connection. While the client connection is closed or closing, or
  has no \<^verbatim>\<open>closed\<close> flag to read, nothing is put on it either.
\<close>

theorem error_event_translation:
  assumes "dict_get event ''type'' (JStr []) = Inr (JStr ''error'')"
  shows "fst (receive_step v browser_ws (Json event) s) = s
       \<and> (\<forall>error error_msg.
             dict_get event ''error'' (JObj []) = Inr error
             \<and> dict_get error ''message'' (JStr ''Unknown error'') = Inr (JStr error_msg)
             \<and> ws_open v \<longrightarrow>
             client_frames (snd (receive_step v browser_ws (Json event) s)) =
               (if str_in ''no active response'' (lower error_msg) then []
                else [(browser_ws, JObj [(''type'', JStr ''error''), (''message'', JStr error_msg)])]))
       \<and> (\<not> (\<exists>error error_msg.
                dict_get event ''error'' (JObj []) = Inr error
                \<and> dict_get error ''message'' (JStr ''Unknown error'') = Inr (JStr error_msg)) \<longrightarrow>
             client_frames (snd (receive_step v browser_ws (Json event) s)) = [])
       \<and> (ws_closed v \<noteq> Some False \<or> (has_send_str v \<and> ws_closing v = Some True) \<longrightarrow>
             client_frames (snd (receive_step v browser_ws (Json event) s)) = [])"
proof (cases "\<exists>error error_msg. dict_get event ''error'' (JObj []) = Inr error
                \<and> dict_get error ''message'' (JStr ''Unknown error'') = Inr (JStr error_msg)")
  case True
  then obtain error error_msg where
    e: "dict_get event ''error'' (JObj []) = Inr error"
    and m: "dict_get error ''message'' (JStr ''Unknown error'') = Inr (JStr error_msg)"
    by blast
  show ?thesis
    using e m
    by (auto simp: receive_step_error [OF assms e m] client_frames_send_open
        client_frames_send_shut)
next
  case False
  from receive_step_error_no_text [OF assms False, of v browser_ws s]
  have "fst (receive_step v browser_ws (Json event) s) = s"
    and "client_frames (snd (receive_step v browser_ws (Json event) s)) = []"
    by simp_all
  with False show ?thesis by blast
qed

theorem error_event_translation_witness:
  "dict_get (error_event ''rate limit exceeded'') ''type'' (JStr []) = Inr (JStr ''error'')
   \<and> ws_open open_view
   \<and> client_frames (snd (receive_step open_view 1 (Json (error_event ''No Active Response found'')) live_agent)) = []
   \<and> client_frames (snd (receive_step open_view 1 (Json (error_event ''rate limit exceeded'')) live_agent))
        = [(1, JObj [(''type'', JStr ''error''), (''message'', JStr ''rate limit exceeded'')])]"
proof -
  have a1: "dict_get (error_event ''No Active Response found'') ''type'' (JStr []) = Inr (JStr ''error'')"
    by (simp add: error_event_def)
  have a2: "dict_get (error_event ''No Active Response found'') ''error'' (JObj [])
        = Inr (JObj [(''message'', JStr ''No Active Response found'')])"
    by (simp add: error_event_def)
  have a3: "dict_get (JObj [(''message'', JStr ''No Active Response found'')]) ''message'' (JStr ''Unknown error'')
        = Inr (JStr ''No Active Response found'')" by simp
  have b1: "dict_get (error_event ''rate limit exceeded'') ''type'' (JStr []) = Inr (JStr ''error'')"
    by (simp add: error_event_def)
  have b2: "dict_get (error_event ''rate limit exceeded'') ''error'' (JObj [])
        = Inr (JObj [(''message'', JStr ''rate limit exceeded'')])"
    by (simp add: error_event_def)
  have b3: "dict_get (JObj [(''message'', JStr ''rate limit exceeded'')]) ''message'' (JStr ''Unknown error'')
        = Inr (JStr ''rate limit exceeded'')" by simp
  have l1: "str_in ''no active response'' (lower ''No Active Response found'')"
    by (simp add: lower_def lower_char_def)
  have l2: "\<not> str_in ''no active response'' (lower ''rate limit exceeded'')"
    by (simp add: lower_def lower_char_def)
  have o: "ws_open open_view" by (simp add: ws_open_def open_view_def)
  note ta = error_event_translation [OF a1, of open_view 1 live_agent,
      THEN conjunct2, THEN conjunct1, rule_format, OF conjI [OF a2 conjI [OF a3 o]]]
  note tb = error_event_translation [OF b1, of open_view 1 live_agent,
      THEN conjunct2, THEN conjunct1, rule_format, OF conjI [OF b2 conjI [OF b3 o]]]
  show ?thesis using b1 o ta tb l1 l2 by simp
qed

lemma receive_step_created:
  assumes "dict_get created ''type'' (JStr []) = Inr (JStr ''response.created'')"
      and "dict_get created ''response'' (JObj []) = Inr response"
      and "dict_get response ''id'' JNull = Inr r"
  shows "receive_step v browser_ws (Json created) s =
           (s\<lparr>current_response_id := r, is_responding := True\<rparr>,
            Print (D_event_type (JStr ''response.created'')) #
            send_ws_message v browser_ws
              (JObj [(''type'', JStr ''thinking''), (''status'', JStr ''start'')]))"
  using assms by (simp add: receive_step_def handle_event_def DEBUG_def)

lemma receive_step_done:
  assumes "dict_get done ''type'' (JStr []) = Inr (JStr ''response.done'')"
  shows "receive_step v browser_ws (Json done) s =
           (s\<lparr>is_responding := False, current_response_id := JNull\<rparr>,
            Print (D_event_type (JStr ''response.done'')) #
            send_ws_message v browser_ws (typed ''response_done'') @ [Print D_response_complete])"
  using assms by (simp add: receive_step_def handle_event_def DEBUG_def)

text \<open>
  Claim C3. A \<open>response.created\<close> event whose response object has the id \<open>r\<close> (any value,
  also none) records \<open>r\<close> and sets \<open>is_responding\<close>; a \<open>response.done\<close> event after it
  leaves \<open>current_response_id\<close> at \<^verbatim>\<open>None\<close> and \<open>is_responding\<close> false, nothing else
  of the state changed. When the client connection is open at both events (not closed,
  not closing, its send returns), the two events put on it exactly
  \<open>thinking{status: start}\<close> and then \<open>response_done\<close>.
\<close>

theorem response_round_trip:
  assumes "dict_get created ''type'' (JStr []) = Inr (JStr ''response.created'')"
      and "dict_get created ''response'' (JObj []) = Inr response"
      and "dict_get response ''id'' JNull = Inr r"
      and "dict_get done ''type'' (JStr []) = Inr (JStr ''response.done'')"
  shows "current_response_id (fst (receive_step v1 browser_ws (Json created) s)) = r
       \<and> is_responding (fst (receive_step v1 browser_ws (Json created) s))
       \<and> current_response_id
           (fst (receive_loop browser_ws [(v1, Json created), (v2, Json done)] s)) = JNull
       \<and> \<not> is_responding (fst (receive_loop browser_ws [(v1, Json created), (v2, Json done)] s))
       \<and> fst (receive_loop browser_ws [(v1, Json created), (v2, Json done)] s)
           = s\<lparr>current_response_id := JNull, is_responding := False\<rparr>
       \<and> (ws_open v1 \<and> ws_open v2 \<longrightarrow>
            client_frames (snd (receive_loop browser_ws [(v1, Json created), (v2, Json done)] s))
              = [(browser_ws, JObj [(''type'', JStr ''thinking''), (''status'', JStr ''start'')]),
                 (browser_ws, JObj [(''type'', JStr ''response_done'')])])"
  by (simp add: receive_step_created [OF assms(1,2,3)] receive_step_done [OF assms(4)] typed_def
      client_frames_append client_frames_send_open)

theorem response_round_trip_witness:
  "dict_get (created_event ''r1'') ''type'' (JStr []) = Inr (JStr ''response.created'')
   \<and> dict_get (created_event ''r1'') ''response'' (JObj []) = Inr (JObj [(''id'', JStr ''r1'')])
   \<and> dict_get (JObj [(''id'', JStr ''r1'')]) ''id'' JNull = Inr (JStr ''r1'')
   \<and> dict_get (typed ''response.done'') ''type'' (JStr []) = Inr (JStr ''response.done'')
   \<and> ws_open open_view
   \<and> current_response_id (fst (receive_step open_view 1 (Json (created_event ''r1'')) live_agent)) = JStr ''r1''
   \<and> is_responding (fst (receive_step open_view 1 (Json (created_event ''r1'')) live_agent))
   \<and> fst (receive_loop 1 [(open_view, Json (created_event ''r1'')),
                            (open_view, Json (typed ''response.done''))] live_agent)
        = live_agent\<lparr>current_response_id := JNull, is_responding := False\<rparr>
   \<and> client_frames (snd (receive_loop 1 [(open_view, Json (created_event ''r1'')),
                                           (open_view, Json (typed ''response.done''))] live_agent))
        = [(1, JObj [(''type'', JStr ''thinking''), (''status'', JStr ''start'')]),
           (1, JObj [(''type'', JStr ''response_done'')])]"
proof -
  have h1: "dict_get (created_event ''r1'') ''type'' (JStr []) = Inr (JStr ''response.created'')"
    by (simp add: created_event_def)
  have h2: "dict_get (created_event ''r1'') ''response'' (JObj []) = Inr (JObj [(''id'', JStr ''r1'')])"
    by (simp add: created_event_def)
  have h3: "dict_get (JObj [(''id'', JStr ''r1'')]) ''id'' JNull = Inr (JStr ''r1'')" by simp
  have h4: "dict_get (typed ''response.done'') ''type'' (JStr []) = Inr (JStr ''response.done'')"
    by (simp add: typed_def)
  have o: "ws_open open_view" by (simp add: ws_open_def open_view_def)
  note t = response_round_trip [OF h1 h2 h3 h4, of open_view 1 live_agent open_view]
  show ?thesis
    using h1 h2 h3 h4 o t by blast
qed

section \<open>Properties of the message loop\<close>

lemma handle_unrecognized:
  assumes "unrecognized m"
  shows "handle_browser_message cfg env w m s = (s, [])"
proof -
  from assms obtain kvs where m: "m = Json (JObj kvs)"
    by (cases m rule: unrecognized.cases) auto
  obtain t where t: "dict_get (JObj kvs) ''type'' JNull = Inr t"
    and n: "t \<noteq> JStr ''session_start''" "t \<noteq> JStr ''input_audio_buffer.append''"
      "t \<noteq> JStr ''interrupt''" "t \<noteq> JStr ''text_message''" "t \<noteq> JStr ''update_sensitivity''"
    using assms unfolding m
    by (auto simp: known_types_def split: option.splits json.splits)
  have "handle_browser_data cfg env w (JObj kvs) s = (s, [], None)"
    unfolding handle_browser_data_def t using n by simp
  then show ?thesis by (simp add: m handle_browser_message_def)
qed

lemma handle_unparsed:
  "handle_browser_message cfg env w (Unparsed e) s =
     (if exn_cls e = JSONDecodeError then (s, [Print D_invalid_json_browser])
      else throttle (fsub env) (now env) (D_error_processing_browser e) s)"
  by (simp add: handle_browser_message_def on_browser_exception_def)

lemma throttle_effect:
  "same_but_throttle s (fst (throttle f t d s)) \<and> list_all is_print (snd (throttle f t d s))"
  by (simp add: throttle_def same_but_throttle_def)

lemma same_but_throttle_refl: "same_but_throttle s s"
  by (simp add: same_but_throttle_def)

lemma same_but_throttle_trans:
  "same_but_throttle s s1 \<Longrightarrow> same_but_throttle s1 s2 \<Longrightarrow> same_but_throttle s s2"
  by (cases s; cases s1; cases s2) (simp add: same_but_throttle_def)

lemma handle_dropped:
  assumes "unrecognized m \<or> unparsed m"
  shows "same_but_throttle s (fst (handle_browser_message cfg env w m s))
       \<and> list_all is_print (snd (handle_browser_message cfg env w m s))"
proof (cases m)
  case (Unparsed e)
  then show ?thesis
    by (simp add: handle_unparsed throttle_effect same_but_throttle_refl)
next
  case (Json data)
  with assms have "unrecognized m" by simp
  then show ?thesis by (simp add: handle_unrecognized same_but_throttle_refl)
qed

lemma browser_loop_append:
  "browser_loop cfg w (xs @ ys) s =
     (case browser_loop cfg w ys (fst (browser_loop cfg w xs s)) of
        (s2, a2) \<Rightarrow> (s2, snd (browser_loop cfg w xs s) @ a2))"
  by (induction xs arbitrary: s) (auto split: prod.splits)

lemma browser_loop_dropped:
  assumes "\<forall>x \<in> set msgs. unrecognized (snd x) \<or> unparsed (snd x)"
  shows "same_but_throttle s (fst (browser_loop cfg w msgs s))
       \<and> list_all is_print (snd (browser_loop cfg w msgs s))"
  using assms
proof (induction msgs arbitrary: s)
  case Nil
  then show ?case by (simp add: same_but_throttle_refl)
next
  case (Cons x msgs)
  obtain env m where x: "x = (env, m)" by (cases x)
  from Cons.prems have d: "unrecognized m \<or> unparsed m" by (simp add: x)
  obtain s1 a1 where h: "handle_browser_message cfg env w m s = (s1, a1)"
    by (cases "handle_browser_message cfg env w m s")
  from handle_dropped [OF d, of s cfg env w] h
  have s1: "same_but_throttle s s1" and a1: "list_all is_print a1" by simp_all
  from Cons.prems have "\<forall>x \<in> set msgs. unrecognized (snd x) \<or> unparsed (snd x)" by simp
  from Cons.IH [OF this, of s1]
  have r: "same_but_throttle s1 (fst (browser_loop cfg w msgs s1))"
    and p: "list_all is_print (snd (browser_loop cfg w msgs s1))" by simp_all
  show ?case
    using same_but_throttle_trans [OF s1 r] a1 p
    by (auto simp: x h split: prod.splits)
qed

lemma browser_loop_silent:
  assumes "\<forall>x \<in> set msgs. unrecognized (snd x) \<or> json_decode_error (snd x)"
  shows "browser_loop cfg w msgs s =
           (s, map (\<lambda>x. Print D_invalid_json_browser) (filter (json_decode_error \<circ> snd) msgs))"
  using assms
proof (induction msgs)
  case Nil
  then show ?case by simp
next
  case (Cons x msgs)
  obtain env m where x: "x = (env, m)" by (cases x)
  from Cons.prems have "unrecognized m \<or> json_decode_error m" by (simp add: x)
  moreover have "unrecognized m \<Longrightarrow> \<not> json_decode_error m" by (cases m) auto
  moreover have "json_decode_error m \<Longrightarrow>
      handle_browser_message cfg env w m s = (s, [Print D_invalid_json_browser])"
    by (cases m) (simp_all add: handle_unparsed)
  ultimately show ?case
    using Cons by (auto simp: x handle_unrecognized)
qed

lemma prints_send_nothing:
  "list_all is_print a \<Longrightarrow> upstream_sends a = [] \<and> client_frames a = []"
proof (induction a)
  case Nil
  then show ?case by simp
next
  case (Cons x xs)
  then show ?case by (cases x) simp_all
qed

text \<open>
  Claim C5, as stated, fails: the loop has no branch for a message of unknown type, so
  such a message produces no diagnostic at all, also when the throttle window is open;
  and a message that is not JSON is reported by a plain \<^verbatim>\<open>print\<close> each time, two in the
  same instant included, without the throttle being read or written.
\<close>

theorem dropped_messages_counterexample:
  "handle_browser_message openai_settings calm 1 ping idle_agent = (idle_agent, [])
   \<and> 1 < fsub calm (now calm) (last_error_time idle_agent)
   \<and> browser_loop openai_settings 1 [(calm, garbage), (calm, garbage)] idle_agent
       = (idle_agent, [Print D_invalid_json_browser, Print D_invalid_json_browser])"
  by (simp add: ping_def garbage_def handle_browser_message_def handle_browser_data_def
      on_browser_exception_def calm_def exact_sub_def idle_agent_def init_agent_def)

text \<open>
  Claim C5, amended. For every sequence of client messages each of which cannot be parsed
  (decoding the frame or \<^verbatim>\<open>json.loads\<close> raises) or is parsed to an object of unknown
  type, the loop handles the whole sequence and goes on with whatever follows: nothing but
  lines are printed, nothing is sent upstream or to the client, and the state of the
  bridge is as before except for the two fields of the error throttle. An object of
  unknown type prints nothing and changes nothing; a message on which \<^verbatim>\<open>json.loads\<close>
  raises \<^verbatim>\<open>JSONDecodeError\<close> prints the plain \<open>Invalid JSON\<close> line, each time, and changes
  nothing; a message that raises any other exception goes through the throttle.
\<close>

theorem dropped_messages_keep_session:
  assumes "\<forall>x \<in> set msgs. unrecognized (snd x) \<or> unparsed (snd x)"
  shows "same_but_throttle s (fst (browser_loop cfg w msgs s))
       \<and> list_all is_print (snd (browser_loop cfg w msgs s))
       \<and> upstream_sends (snd (browser_loop cfg w msgs s)) = []
       \<and> client_frames (snd (browser_loop cfg w msgs s)) = []
       \<and> browser_loop cfg w (msgs @ rest) s =
           (case browser_loop cfg w rest (fst (browser_loop cfg w msgs s)) of
              (s', a) \<Rightarrow> (s', snd (browser_loop cfg w msgs s) @ a))
       \<and> ((\<forall>x \<in> set msgs. unrecognized (snd x) \<or> json_decode_error (snd x)) \<longrightarrow>
            browser_loop cfg w msgs s =
              (s, map (\<lambda>x. Print D_invalid_json_browser)
                    (filter (json_decode_error \<circ> snd) msgs)))
       \<and> (\<forall>env m. unrecognized m \<longrightarrow> handle_browser_message cfg env w m s = (s, []))
       \<and> (\<forall>env e. exn_cls e = JSONDecodeError \<longrightarrow>
            handle_browser_message cfg env w (Unparsed e) s = (s, [Print D_invalid_json_browser]))
       \<and> (\<forall>env e. exn_cls e \<noteq> JSONDecodeError \<longrightarrow>
            handle_browser_message cfg env w (Unparsed e) s
              = throttle (fsub env) (now env) (D_error_processing_browser e) s)"
proof -
  note d = browser_loop_dropped [OF assms, of s cfg w]
  from d have p: "list_all is_print (snd (browser_loop cfg w msgs s))" by simp
  show ?thesis
    using d prints_send_nothing [OF p]
    by (simp add: browser_loop_append browser_loop_silent handle_unrecognized handle_unparsed)
qed

theorem dropped_messages_keep_session_witness:
  "unrecognized ping \<and> unparsed garbage \<and> unparsed binary_frame
   \<and> browser_loop openai_settings 1 [(calm, ping), (calm, garbage), (calm, ping)] live_agent
       = (live_agent, [Print D_invalid_json_browser])
   \<and> same_but_throttle live_agent
        (fst (browser_loop openai_settings 1
               [(calm, ping), (calm, binary_frame), (calm, garbage)] live_agent))
   \<and> upstream_sends (snd (browser_loop openai_settings 1
               [(calm, ping), (calm, binary_frame), (calm, garbage)] live_agent)) = []"
proof -
  have h1: "\<forall>x \<in> set [(calm, ping), (calm, garbage), (calm, ping)].
              unrecognized (snd x) \<or> unparsed (snd x)"
    by (simp add: ping_def garbage_def known_types_def)
  have h1': "\<forall>x \<in> set [(calm, ping), (calm, garbage), (calm, ping)].
              unrecognized (snd x) \<or> json_decode_error (snd x)"
    by (simp add: ping_def garbage_def known_types_def)
  have h2: "\<forall>x \<in> set [(calm, ping), (calm, binary_frame), (calm, garbage)].
              unrecognized (snd x) \<or> unparsed (snd x)"
    by (simp add: ping_def garbage_def binary_frame_def known_types_def)
  have f: "filter (json_decode_error \<circ> snd) [(calm, ping), (calm, garbage), (calm, ping)]
             = [(calm, garbage)]"
    by (simp add: ping_def garbage_def)
  note t1 = dropped_messages_keep_session [OF h1, of live_agent openai_settings 1 "[]"]
  note t2 = dropped_messages_keep_session [OF h2, of live_agent openai_settings 1 "[]"]
  have r1: "browser_loop openai_settings 1 [(calm, ping), (calm, garbage), (calm, ping)] live_agent
       = (live_agent, [Print D_invalid_json_browser])"
    using t1 h1' unfolding f by simp
  have r2: "same_but_throttle live_agent
        (fst (browser_loop openai_settings 1
               [(calm, ping), (calm, binary_frame), (calm, garbage)] live_agent))"
    using t2 by (rule conjunct1)
  have r3: "upstream_sends (snd (browser_loop openai_settings 1
               [(calm, ping), (calm, binary_frame), (calm, garbage)] live_agent)) = []"
    using t2 by (elim conjE)
  have u: "unrecognized ping \<and> unparsed garbage \<and> unparsed binary_frame"
    by (simp add: ping_def garbage_def binary_frame_def known_types_def)
  show ?thesis using u r1 r2 r3 by (intro conjI) (elim conjE, assumption)+
qed

section \<open>Properties of the audio capture sink\<close>

lemma save_recording_removes: "audio_recordings (fst (save_recording env w s)) w = None"
  by (simp add: save_recording_def remove_recording_def split: option.splits)

lemma save_recording_absent: "audio_recordings s w = None \<Longrightarrow> save_recording env w s = (s, [])"
  by (simp add: save_recording_def)

lemma save_recording_files:
  "files_written (snd (save_recording env w s)) =
     (case audio_recordings s w of
        None \<Rightarrow> []
      | Some chunks \<Rightarrow>
          (if concat chunks = [] then []
           else (case (recordings_dir s, wav_exn env) of
                   (Some dir, None) \<Rightarrow>
                     [(dir @ ''/'' @ ''recording_'' @ timestamp env @ ''.wav'', concat chunks)]
                 | _ \<Rightarrow> [])))"
  by (auto simp: save_recording_def split: option.splits)

text \<open>
  Claim C6. Saving the recording of a client twice: the second call changes nothing, does
  nothing and raises nothing; the entry of the client is gone after the first call; the
  two calls together write at most one file, none when there is no entry or the entry
  holds no bytes, and exactly one, holding the chunks in the order of their arrival, when
  the entry holds bytes, the recordings directory is set (capture is enabled) and the
  writing of the file does not raise.
\<close>

theorem save_recording_idempotent:
  "save_recording env2 w (fst (save_recording env1 w s)) = (fst (save_recording env1 w s), [])
   \<and> audio_recordings (fst (save_recording env1 w s)) w = None
   \<and> length (files_written (snd (save_recording env1 w s)
               @ snd (save_recording env2 w (fst (save_recording env1 w s))))) \<le> 1
   \<and> (audio_recordings s w = None \<longrightarrow>
        files_written (snd (save_recording env1 w s)
               @ snd (save_recording env2 w (fst (save_recording env1 w s)))) = [])
   \<and> (\<forall>chunks. audio_recordings s w = Some chunks \<and> concat chunks = [] \<longrightarrow>
        files_written (snd (save_recording env1 w s)
               @ snd (save_recording env2 w (fst (save_recording env1 w s)))) = [])
   \<and> (\<forall>chunks dir. audio_recordings s w = Some chunks \<and> concat chunks \<noteq> []
          \<and> recordings_dir s = Some dir \<and> wav_exn env1 = None \<longrightarrow>
        files_written (snd (save_recording env1 w s)
               @ snd (save_recording env2 w (fst (save_recording env1 w s))))
          = [(dir @ ''/'' @ ''recording_'' @ timestamp env1 @ ''.wav'', concat chunks)])"
proof -
  have second: "save_recording env2 w (fst (save_recording env1 w s)) = (fst (save_recording env1 w s), [])"
    by (simp add: save_recording_absent save_recording_removes)
  show ?thesis
    unfolding second
    by (auto simp: save_recording_removes save_recording_files split: option.splits)
qed

theorem save_recording_idempotent_witness:
  "audio_recordings (with_recording 1 [''ab'', ''cd''] live_agent) 1 = Some [''ab'', ''cd'']
   \<and> concat [''ab'', ''cd''] \<noteq> []
   \<and> recordings_dir (with_recording 1 [''ab'', ''cd''] live_agent) = Some ''/app/recordings''
   \<and> wav_exn rec_ok = None
   \<and> files_written (snd (save_recording rec_ok 1 (with_recording 1 [''ab'', ''cd''] live_agent))
        @ snd (save_recording rec_ok 1
                 (fst (save_recording rec_ok 1 (with_recording 1 [''ab'', ''cd''] live_agent)))))
       = [(''/app/recordings/recording_20240101_120000.wav'', ''abcd'')]"
proof -
  have h: "audio_recordings (with_recording 1 [''ab'', ''cd''] live_agent) 1 = Some [''ab'', ''cd'']
         \<and> concat [''ab'', ''cd''] \<noteq> []
         \<and> recordings_dir (with_recording 1 [''ab'', ''cd''] live_agent) = Some ''/app/recordings''
         \<and> wav_exn rec_ok = None"
    by (simp add: with_recording_def live_agent_def idle_agent_def init_agent_def
        openai_settings_def rec_ok_def)
  have t: "''/app/recordings'' @ ''/'' @ ''recording_'' @ timestamp rec_ok @ ''.wav''
         = ''/app/recordings/recording_20240101_120000.wav''"
    by (simp add: rec_ok_def)
  have c: "concat [''ab'', ''cd''] = ''abcd''" by simp
  from save_recording_idempotent [of rec_ok 1 rec_ok "with_recording 1 [''ab'', ''cd''] live_agent"]
  have "\<forall>chunks dir. audio_recordings (with_recording 1 [''ab'', ''cd''] live_agent) 1 = Some chunks
          \<and> concat chunks \<noteq> []
          \<and> recordings_dir (with_recording 1 [''ab'', ''cd''] live_agent) = Some dir
          \<and> wav_exn rec_ok = None \<longrightarrow>
        files_written (snd (save_recording rec_ok 1 (with_recording 1 [''ab'', ''cd''] live_agent))
               @ snd (save_recording rec_ok 1
                   (fst (save_recording rec_ok 1 (with_recording 1 [''ab'', ''cd''] live_agent)))))
          = [(dir @ ''/'' @ ''recording_'' @ timestamp rec_ok @ ''.wav'', concat chunks)]"
    by (elim conjE)
  from this [rule_format, of "[''ab'', ''cd'']" "''/app/recordings''", OF h]
  have "files_written (snd (save_recording rec_ok 1 (with_recording 1 [''ab'', ''cd''] live_agent))
               @ snd (save_recording rec_ok 1
                   (fst (save_recording rec_ok 1 (with_recording 1 [''ab'', ''cd''] live_agent)))))
          = [(''/app/recordings/recording_20240101_120000.wav'', ''abcd'')]"
    unfolding t c .
  with h show ?thesis by (intro conjI) (elim conjE, assumption)+
qed

section \<open>Properties of the upstream connector\<close>

lemma connect_to_openai_connected:
  assumes "USE_AZURE cfg \<longrightarrow> azure_complete cfg"
  shows "connect_to_openai cfg (Connected u) fallback s =
           (s\<lparr>openai_ws := Some u\<rparr>,
            [Print D_connect_target, Print D_connecting, Up_connect Additional_headers,
             Print D_connected], Inr True)"
  using assms by (auto simp: connect_to_openai_def)

lemma connect_to_openai_raises:
  "USE_AZURE cfg \<and> \<not> azure_complete cfg \<Longrightarrow>
     \<exists>e. connect_to_openai cfg primary fallback s = (s, [], Inl e) \<and> exn_cls e = ValueError"
  "\<not> (USE_AZURE cfg \<and> \<not> azure_complete cfg) \<Longrightarrow> primary = Raised e \<Longrightarrow>
   exn_cls e = TypeError \<Longrightarrow> \<not> names_header_kw e \<Longrightarrow>
     snd (snd (connect_to_openai cfg primary fallback s)) = Inl e
     \<and> fst (connect_to_openai cfg primary fallback s) = s"
  by (auto simp: connect_to_openai_def)

text \<open>
  Claim C4. With the credentials of the selected shape complete, and whatever the attempts
  to connect raise, as long as a \<^verbatim>\<open>TypeError\<close> of the first attempt is the mismatch of
  the header keyword (its text names \<open>additional_headers\<close> or \<open>extra_headers\<close>), the
  connect operation returns \<open>True\<close> or \<open>False\<close> and raises nothing: \<open>True\<close> with the new
  connection stored (the first attempt's, or the second's after the mismatch), \<open>False\<close>
  with the state unchanged after a timeout and after any other failure. A failure of the
  name lookup, of TLS, of the handshake or of the authentication is not a \<^verbatim>\<open>TypeError\<close>.
\<close>

theorem connect_to_openai_returns:
  assumes "USE_AZURE cfg \<longrightarrow> azure_complete cfg"
      and "\<forall>e. primary = Raised e \<and> exn_cls e = TypeError \<longrightarrow> names_header_kw e"
  shows "\<exists>b. snd (snd (connect_to_openai cfg primary fallback s)) = Inr b
           \<and> (b \<longrightarrow> (\<exists>u. openai_ws (fst (connect_to_openai cfg primary fallback s)) = Some u
                          \<and> (primary = Connected u \<or> fallback = Connected u)))
           \<and> (\<not> b \<longrightarrow> fst (connect_to_openai cfg primary fallback s) = s)
           \<and> (primary = Connected u \<longrightarrow> b)
           \<and> ((\<exists>e. primary = Raised e \<and> exn_cls e = TimeoutError) \<longrightarrow> \<not> b)
           \<and> ((\<exists>e. primary = Raised e \<and> exn_cls e \<noteq> TypeError) \<longrightarrow> \<not> b)"
proof (cases primary)
  case (Connected v)
  then show ?thesis using assms(1) by (auto simp: connect_to_openai_def)
next
  case (Raised e)
  show ?thesis
  proof (cases "exn_cls e = TypeError")
    case True
    with assms(2) Raised have "names_header_kw e" by simp
    with True Raised assms(1) show ?thesis
      by (cases fallback) (auto simp: connect_to_openai_def)
  next
    case False
    with Raised assms(1) show ?thesis by (auto simp: connect_to_openai_def)
  qed
qed

theorem connect_to_openai_returns_witness:
  "\<not> USE_AZURE openai_settings
   \<and> exn_cls dns_failure \<noteq> TypeError
   \<and> connect_to_openai openai_settings (Raised dns_failure) (Connected 9) idle_agent
       = (idle_agent, [Print D_connect_target, Print D_connecting, Up_connect Additional_headers,
                       Print (D_connect_failed dns_failure)], Inr False)"
proof -
  have h1: "USE_AZURE openai_settings \<longrightarrow> azure_complete openai_settings"
    by (simp add: openai_settings_def)
  have h2: "\<forall>e. Raised dns_failure = Raised e \<and> exn_cls e = TypeError \<longrightarrow> names_header_kw e"
    by (simp add: dns_failure_def)
  from connect_to_openai_returns [OF h1 h2, of "Connected 9" idle_agent]
  obtain b where "snd (snd (connect_to_openai openai_settings (Raised dns_failure) (Connected 9) idle_agent)) = Inr b"
    by blast
  moreover have "connect_to_openai openai_settings (Raised dns_failure) (Connected 9) idle_agent
       = (idle_agent, [Print D_connect_target, Print D_connecting, Up_connect Additional_headers,
                       Print (D_connect_failed dns_failure)], Inr False)"
    by (simp add: connect_to_openai_def openai_settings_def dns_failure_def)
  ultimately show ?thesis by (simp add: openai_settings_def dns_failure_def)
qed

section \<open>Properties of the session bridge\<close>






























end
